theory Spec2Isabelle
  imports Complex_Main "HOL-Library.AList" "HOL-Library.Char_ord" "HOL-Library.List_Lexorder"
    "HOL-Library.Multiset"
begin

section \<open>Values handled by the Zepp import\<close>

text \<open>
  The import of \<^verbatim>\<open>app.py\<close> reads a CSV file with pandas, coerces each row with Python's
  \<^verbatim>\<open>str\<close>, \<^verbatim>\<open>int\<close> and \<^verbatim>\<open>float\<close>, and writes it to the SQLite table \<^verbatim>\<open>zepp_data\<close>.

  Python floats are modelled as real numbers with one extra value \<open>NaN\<close>: pandas reads an
  empty CSV cell as the float NaN, and the truth value of NaN and what \<^verbatim>\<open>int\<close> does with it
  decide how such a cell is imported. Rounding and the infinities are not modelled.
  Strings are lists of characters.
\<close>

datatype pyfloat = Fin real | NaN

text \<open>A cell of a data frame: a (numpy) integer, a float, or a string.\<close>

datatype cell = IntV int | FloatV pyfloat | StrV string

datatype pyerror = ValueError | OverflowError | CsvError

text \<open>
  What \<^verbatim>\<open>pd.to_datetime\<close> returns: a timestamp, of which only the calendar date is used
  (year, month, day), or the missing value \<^verbatim>\<open>NaT\<close>.
\<close>

datatype timestamp = NaT | Timestamp nat nat nat

text \<open>
  The library functions that the source calls and whose code is not part of the repository
  are parameters of the model:
  \<^item> \<open>to_datetime\<close> is \<^verbatim>\<open>pd.to_datetime\<close> on a string (\<open>None\<close> when it raises);
  \<^item> \<open>strftime\<close> is the method call \<^verbatim>\<open>dt_obj.strftime("%Y-%m-%d")\<close> on what
    \<^verbatim>\<open>pd.to_datetime\<close> returned (\<open>None\<close> when it raises, as it does on \<^verbatim>\<open>NaT\<close>); how
    it writes a year of fewer than four digits depends on the platform;
  \<^item> \<open>str_float\<close> is Python's \<^verbatim>\<open>str\<close> on a float that is not NaN;
  \<^item> \<open>int_str\<close> is Python's \<^verbatim>\<open>int\<close> on a string (\<open>None\<close> when it raises \<^verbatim>\<open>ValueError\<close>);
  \<^item> \<open>float_str\<close> is Python's \<^verbatim>\<open>float\<close> on a string (\<open>None\<close> when it raises \<^verbatim>\<open>ValueError\<close>).
\<close>

record pylib =
  to_datetime :: "string \<Rightarrow> timestamp option"
  strftime :: "timestamp \<Rightarrow> string option"
  str_float :: "real \<Rightarrow> string"
  int_str :: "string \<Rightarrow> int option"
  float_str :: "string \<Rightarrow> pyfloat option"

subsection \<open>Text of a cell\<close>

definition digit :: "nat \<Rightarrow> char" where
  "digit n = char_of (48 + n mod 10)"

fun digits :: "nat \<Rightarrow> string" where
  "digits n = (if n < 10 then [digit n] else digits (n div 10) @ [digit n])"

declare digits.simps [simp del]

definition str_int :: "int \<Rightarrow> string" where
  "str_int i = (if i < 0 then CHR ''-'' # digits (nat (- i)) else digits (nat i))"

text \<open>\<^verbatim>\<open>str(row[col_date_csv])\<close>.\<close>

fun str_cell :: "pylib \<Rightarrow> cell \<Rightarrow> string" where
  "str_cell lib (StrV s) = s"
| "str_cell lib (IntV i) = str_int i"
| "str_cell lib (FloatV NaN) = ''nan''"
| "str_cell lib (FloatV (Fin r)) = str_float lib r"

text \<open>
  Lines 186 to 194 of \<^verbatim>\<open>save_zepp_data\<close>: a text longer than 10 characters is parsed and
  reduced to its calendar date; the bare \<^verbatim>\<open>except\<close> turns every failure of the two calls
  into the first 10 characters of the text.
\<close>

definition normalize_date :: "pylib \<Rightarrow> string \<Rightarrow> string" where
  "normalize_date lib date_val =
     (if length date_val > 10 then
        (case to_datetime lib date_val of
           None \<Rightarrow> take 10 date_val
         | Some dt_obj \<Rightarrow>
             (case strftime lib dt_obj of
                None \<Rightarrow> take 10 date_val
              | Some s \<Rightarrow> s))
      else date_val)"

subsection \<open>Numeric coercion\<close>

text \<open>Python's truth value of a cell, as \<^verbatim>\<open>or\<close> tests it: NaN is true.\<close>

fun truthy :: "cell \<Rightarrow> bool" where
  "truthy (IntV i) = (i \<noteq> 0)"
| "truthy (FloatV (Fin r)) = (r \<noteq> 0)"
| "truthy (FloatV NaN) = True"
| "truthy (StrV s) = (s \<noteq> [])"

text \<open>\<^verbatim>\<open>x or 0\<close>.\<close>

definition or_zero :: "cell \<Rightarrow> cell" where
  "or_zero x = (if truthy x then x else IntV 0)"

text \<open>\<^verbatim>\<open>int(x)\<close>: a float is truncated towards zero, NaN and a rejected string raise.\<close>

fun py_int :: "pylib \<Rightarrow> cell \<Rightarrow> pyerror + int" where
  "py_int lib (IntV i) = Inr i"
| "py_int lib (FloatV (Fin r)) = Inr (if 0 \<le> r then \<lfloor>r\<rfloor> else \<lceil>r\<rceil>)"
| "py_int lib (FloatV NaN) = Inl ValueError"
| "py_int lib (StrV s) = (case int_str lib s of None \<Rightarrow> Inl ValueError | Some i \<Rightarrow> Inr i)"

text \<open>\<^verbatim>\<open>float(x)\<close>.\<close>

fun py_float :: "pylib \<Rightarrow> cell \<Rightarrow> pyerror + pyfloat" where
  "py_float lib (IntV i) = Inr (Fin (of_int i))"
| "py_float lib (FloatV f) = Inr f"
| "py_float lib (StrV s) = (case float_str lib s of None \<Rightarrow> Inl ValueError | Some f \<Rightarrow> Inr f)"

text \<open>Comparison and division of a float by a number; every comparison with NaN is false.\<close>

fun float_gt :: "pyfloat \<Rightarrow> real \<Rightarrow> bool" where
  "float_gt (Fin r) c = (r > c)"
| "float_gt NaN c = False"

fun float_div :: "pyfloat \<Rightarrow> real \<Rightarrow> pyfloat" where
  "float_div (Fin r) c = Fin (r / c)"
| "float_div NaN c = NaN"

text \<open>
  Line 200, \<^verbatim>\<open>sleep_h = raw_sleep / 60 if raw_sleep > 24 else raw_sleep\<close>: a value above 24
  is taken to be minutes.
\<close>

definition sleep_unit_heuristic :: "pyfloat \<Rightarrow> pyfloat" where
  "sleep_unit_heuristic raw_sleep =
     (if float_gt raw_sleep 24 then float_div raw_sleep 60 else raw_sleep)"

section \<open>The table \<^verbatim>\<open>zepp_data\<close>\<close>

text \<open>
  The table of \<^verbatim>\<open>init_db\<close>: \<^verbatim>\<open>id INTEGER PRIMARY KEY AUTOINCREMENT\<close>, \<^verbatim>\<open>date TEXT UNIQUE\<close>,
  three more integer columns and two real columns. A real column holds a number or NULL.
\<close>

record zepp_row =
  rowid :: int
  date :: string
  steps :: int
  sleep_hours :: "real option"
  deep_sleep_min :: int
  min_heart_rate :: int
  max_heart_rate :: int
  body_weight :: "real option"

text \<open>
  The database as far as the import and the dashboard use it: the rows of \<^verbatim>\<open>zepp_data\<close> and
  the entry of \<^verbatim>\<open>sqlite_sequence\<close> that AUTOINCREMENT keeps for the table (the largest id
  ever given out, 0 when there is none).
\<close>

record database =
  zepp_data :: "zepp_row list"
  zepp_seq :: int

text \<open>The database that \<^verbatim>\<open>init_db\<close> creates when there is none yet.\<close>

definition fresh_db :: database where
  "fresh_db = \<lparr>zepp_data = [], zepp_seq = 0\<rparr>"

text \<open>The tuple of values bound to the seven placeholders of the statement.\<close>

type_synonym params = "string \<times> int \<times> pyfloat \<times> int \<times> int \<times> int \<times> pyfloat"

text \<open>SQLite stores a bound NaN as NULL.\<close>

fun bind_real :: "pyfloat \<Rightarrow> real option" where
  "bind_real (Fin r) = Some r"
| "bind_real NaN = None"

text \<open>An integer is bound as a 64-bit value; \<^verbatim>\<open>sqlite3\<close> raises on a larger one.\<close>

definition sqlite_int :: "int \<Rightarrow> bool" where
  "sqlite_int i \<longleftrightarrow> - (2 ^ 63) \<le> i \<and> i < 2 ^ 63"

text \<open>
  \<^verbatim>\<open>INSERT OR REPLACE INTO zepp_data (date, ...) VALUES (?, ...)\<close>: no id is given, so
  AUTOINCREMENT takes one more than the largest id that the table holds or ever held; the
  row that has the same \<^verbatim>\<open>date\<close> (the UNIQUE column) is deleted, and the new row inserted.
\<close>

definition next_rowid :: "database \<Rightarrow> int" where
  "next_rowid db = fold max (map rowid (zepp_data db)) (zepp_seq db) + 1"

definition insert_or_replace ::
  "database \<Rightarrow> string \<times> int \<times> real option \<times> int \<times> int \<times> int \<times> real option \<Rightarrow> database" where
  "insert_or_replace db vals =
     (case vals of (d, st, sl, ds, mn, mx, bw) \<Rightarrow>
        \<lparr>zepp_data =
           filter (\<lambda>r. date r \<noteq> d) (zepp_data db) @
           [\<lparr>rowid = next_rowid db, date = d, steps = st, sleep_hours = sl,
             deep_sleep_min = ds, min_heart_rate = mn, max_heart_rate = mx,
             body_weight = bw\<rparr>],
         zepp_seq = next_rowid db\<rparr>)"

text \<open>\<^verbatim>\<open>c.execute(...)\<close> of lines 208 to 212, on the open connection.\<close>

definition execute_upsert :: "database \<Rightarrow> params \<Rightarrow> pyerror + database" where
  "execute_upsert conn p =
     (case p of (date_val, steps_v, sleep_h, deep_sleep, min_hr, max_hr, weight) \<Rightarrow>
        if sqlite_int steps_v \<and> sqlite_int deep_sleep \<and> sqlite_int min_hr \<and> sqlite_int max_hr
        then Inr (insert_or_replace conn
               (date_val, steps_v, bind_real sleep_h, deep_sleep, min_hr, max_hr, bind_real weight))
        else Inl OverflowError)"

section \<open>Data frames and the column mapper\<close>

text \<open>
  A data frame as \<^verbatim>\<open>pd.read_csv\<close> returns it: the header and the rows of cells, each cell
  as \<^verbatim>\<open>df.iterrows()\<close> hands it to the loop. A row that \<^verbatim>\<open>df.iterrows()\<close> yields is a
  series, the cells labelled by the header; pandas makes the headers of a file distinct.
\<close>

record dataframe =
  columns :: "string list"
  cells :: "cell list list"

type_synonym series = "(string \<times> cell) list"

definition iterrows :: "dataframe \<Rightarrow> series list" where
  "iterrows df = map (zip (columns df)) (cells df)"

text \<open>
  The dictionary \<^verbatim>\<open>mapping\<close>, in insertion order: database field to CSV header.
\<close>

type_synonym mapping = "(string \<times> string) list"

definition default_mapping :: mapping where
  "default_mapping =
     [(''date'', ''date''),
      (''steps'', ''steps''),
      (''sleep_hours'', ''totalSleep''),
      (''deep_sleep_min'', ''deepSleep''),
      (''min_heart_rate'', ''minHeartRate''),
      (''max_heart_rate'', ''maxHeartRate''),
      (''body_weight'', ''weight'')]"

text \<open>\<^verbatim>\<open>c.lower()\<close> on the letters A to Z, and the test \<^verbatim>\<open>sub in s\<close> on strings.\<close>

definition lower_chr :: "char \<Rightarrow> char" where
  "lower_chr c =
     (let n = (of_char c :: nat) in if 65 \<le> n \<and> n \<le> 90 then char_of (n + 32) else c)"

definition lower :: "string \<Rightarrow> string" where
  "lower s = map lower_chr s"

fun starts_with :: "string \<Rightarrow> string \<Rightarrow> bool" where
  "starts_with [] s = True"
| "starts_with (a # as) [] = False"
| "starts_with (a # as) (c # cs) = (a = c \<and> starts_with as cs)"

fun contains :: "string \<Rightarrow> string \<Rightarrow> bool" where
  "contains sub [] = (sub = [])"
| "contains sub (c # cs) = (starts_with sub (c # cs) \<or> contains sub cs)"

definition date_like :: "string \<Rightarrow> bool" where
  "date_like c \<longleftrightarrow> contains ''date'' (lower c) \<or> contains ''time'' (lower c)"

text \<open>
  Lines 141 to 156 of \<^verbatim>\<open>process_zepp_csv\<close>: the mapping, with the date header replaced by
  the first header that looks like a date when the frame has no column \<^verbatim>\<open>date\<close>.
\<close>

definition resolve_mapping :: "string list \<Rightarrow> mapping" where
  "resolve_mapping cols =
     (if ''date'' \<notin> set cols then
        (case filter date_like cols of
           [] \<Rightarrow> default_mapping
         | c # _ \<Rightarrow> AList.update ''date'' c default_mapping)
      else default_mapping)"

text \<open>What the functions show to the user through Streamlit.\<close>

datatype ui_msg =
    Error_no_columns
  | Write_columns "string list"
  | Info_mapped "string list"
  | Error_read_csv pyerror
  | Success_saved nat
  | Error_save pyerror

text \<open>
  \<^verbatim>\<open>process_zepp_csv\<close>. The uploaded file is given by what \<^verbatim>\<open>pd.read_csv\<close> makes of it: a
  data frame, or an exception. The result is the returned pair, \<open>None\<close> for
  \<^verbatim>\<open>(None, None)\<close>, and the messages shown.
\<close>

definition process_zepp_csv ::
  "pyerror + dataframe \<Rightarrow> (dataframe \<times> mapping) option \<times> ui_msg list" where
  "process_zepp_csv uploaded_file =
     (case uploaded_file of
        Inl e \<Rightarrow> (None, [Error_read_csv e])
      | Inr df \<Rightarrow>
          (let mapping = resolve_mapping (columns df);
               available_columns = filter (\<lambda>col. col \<in> set (columns df)) (map snd mapping)
           in if available_columns = []
              then (None, [Error_no_columns, Write_columns (columns df)])
              else (Some (df, mapping), [Info_mapped available_columns])))"

section \<open>The upsert of a data frame\<close>

text \<open>\<^verbatim>\<open>row.get(mapping.get(field), 0)\<close>: the cell, or 0 when the row has no such label.\<close>

definition row_get :: "mapping \<Rightarrow> series \<Rightarrow> string \<Rightarrow> cell" where
  "row_get mapping row field =
     (case map_of mapping field of
        None \<Rightarrow> IntV 0
      | Some col \<Rightarrow> (case map_of row col of None \<Rightarrow> IntV 0 | Some v \<Rightarrow> v))"

text \<open>
  Lines 186 to 205: the values of one row, whose date cell \<^verbatim>\<open>row[col_date_csv]\<close> is \<open>c\<close>.
  The coercions run in the order of the source and the first one that raises ends the row.
\<close>

definition row_params :: "pylib \<Rightarrow> mapping \<Rightarrow> series \<Rightarrow> cell \<Rightarrow> pyerror + params" where
  "row_params lib mapping row c =
     (let date_val = normalize_date lib (str_cell lib c) in
      (case py_int lib (or_zero (row_get mapping row ''steps'')) of
         Inl e \<Rightarrow> Inl e
       | Inr steps_v \<Rightarrow>
      (case py_float lib (or_zero (row_get mapping row ''sleep_hours'')) of
         Inl e \<Rightarrow> Inl e
       | Inr raw_sleep \<Rightarrow>
      (case py_int lib (or_zero (row_get mapping row ''deep_sleep_min'')) of
         Inl e \<Rightarrow> Inl e
       | Inr deep_sleep \<Rightarrow>
      (case py_int lib (or_zero (row_get mapping row ''min_heart_rate'')) of
         Inl e \<Rightarrow> Inl e
       | Inr min_hr \<Rightarrow>
      (case py_int lib (or_zero (row_get mapping row ''max_heart_rate'')) of
         Inl e \<Rightarrow> Inl e
       | Inr max_hr \<Rightarrow>
      (case py_float lib (or_zero (row_get mapping row ''body_weight'')) of
         Inl e \<Rightarrow> Inl e
       | Inr weight \<Rightarrow>
           Inr (date_val, steps_v, sleep_unit_heuristic raw_sleep, deep_sleep, min_hr,
                max_hr, weight))))))))"

text \<open>
  The date cell of a row: \<open>None\<close> when \<^verbatim>\<open>mapping.get('date')\<close> is no label of the row, the
  case in which the loop goes on to the next row.
\<close>

definition date_cell :: "mapping \<Rightarrow> series \<Rightarrow> cell option" where
  "date_cell mapping row =
     (case map_of mapping ''date'' of
        None \<Rightarrow> None
      | Some col_date_csv \<Rightarrow> map_of row col_date_csv)"

text \<open>
  The loop of lines 180 to 214 over the rows, on the open connection and the counter. An
  exception leaves the loop.
\<close>

fun save_rows ::
  "pylib \<Rightarrow> mapping \<Rightarrow> series list \<Rightarrow> database \<times> nat \<Rightarrow> pyerror + database \<times> nat" where
  "save_rows lib mapping [] (conn, count_updated) = Inr (conn, count_updated)"
| "save_rows lib mapping (row # rest) (conn, count_updated) =
     (case date_cell mapping row of
        None \<Rightarrow> save_rows lib mapping rest (conn, count_updated)
      | Some c \<Rightarrow>
          (case row_params lib mapping row c of
             Inl e \<Rightarrow> Inl e
           | Inr p \<Rightarrow>
               (case execute_upsert conn p of
                  Inl e \<Rightarrow> Inl e
                | Inr conn' \<Rightarrow> save_rows lib mapping rest (conn', count_updated + 1))))"

text \<open>
  \<^verbatim>\<open>save_zepp_data\<close>: the database after the call and the message shown. The only
  \<^verbatim>\<open>conn.commit()\<close> follows the loop; when the loop raises, the connection is closed
  without a commit and the database is as it was before the call.
\<close>

definition save_zepp_data ::
  "pylib \<Rightarrow> database \<Rightarrow> dataframe \<Rightarrow> mapping \<Rightarrow> database \<times> ui_msg list" where
  "save_zepp_data lib db df mapping =
     (case save_rows lib mapping (iterrows df) (db, 0) of
        Inr (conn, count_updated) \<Rightarrow> (conn, [Success_saved count_updated])
      | Inl e \<Rightarrow> (db, [Error_save e]))"

section \<open>The figures of the dashboard\<close>

text \<open>
  Line 304: \<^verbatim>\<open>SELECT ... FROM zepp_data WHERE date >= date('now', '-30 days') ORDER BY
  date ASC\<close>. Both sides of the comparison are text, which SQLite compares character by
  character; \<open>cutoff\<close> is the value of \<^verbatim>\<open>date('now', '-30 days')\<close> at the time of the query.
\<close>

definition select_recent :: "string \<Rightarrow> database \<Rightarrow> zepp_row list" where
  "select_recent cutoff db = sort_key date (filter (\<lambda>r. cutoff \<le> date r) (zepp_data db))"

datatype weight_kpi = NA | Kg real

text \<open>
  Lines 309 to 316: the last weight above zero of the frame; NULL is not above zero. The
  rows that the filter keeps have a weight, so the innermost \<open>None\<close> never occurs.
\<close>

definition positive_weight :: "zepp_row \<Rightarrow> bool" where
  "positive_weight r = (case body_weight r of None \<Rightarrow> False | Some w \<Rightarrow> w > 0)"

definition curr_weight :: "zepp_row list \<Rightarrow> weight_kpi" where
  "curr_weight df_zepp =
     (if df_zepp = [] then NA
      else (case filter positive_weight df_zepp of
              [] \<Rightarrow> NA
            | v # vs \<Rightarrow> (case body_weight (last (v # vs)) of None \<Rightarrow> NA | Some w \<Rightarrow> Kg w)))"

text \<open>The mean of a pandas series: the missing values are left out.\<close>

definition series_mean :: "real option list \<Rightarrow> pyfloat" where
  "series_mean xs =
     (let vs = List.map_filter (\<lambda>x. x) xs
      in if vs = [] then NaN else Fin (sum_list vs / real (length vs)))"

text \<open>Lines 310 to 318: 0 for an empty frame, else the mean of its \<^verbatim>\<open>sleep_hours\<close>.\<close>

definition avg_sleep :: "zepp_row list \<Rightarrow> pyfloat" where
  "avg_sleep df_zepp = (if df_zepp = [] then Fin 0 else series_mean (map sleep_hours df_zepp))"

text \<open>The two figures that \<^verbatim>\<open>main\<close> shows, from the database.\<close>

definition dashboard_kpis :: "string \<Rightarrow> database \<Rightarrow> weight_kpi \<times> pyfloat" where
  "dashboard_kpis cutoff db =
     (let df_zepp = select_recent cutoff db in (curr_weight df_zepp, avg_sleep df_zepp))"

section \<open>An instance of the library functions\<close>

text \<open>
  The properties below hold for every choice of the library functions. To run the model on
  examples they are instantiated with readers of the plainest notations: decimal integers
  with an optional sign, decimal fractions, and timestamps written
  \<^verbatim>\<open>YYYY-MM-DD HH:MM:SS\<close>. Python and pandas read these notations in the same way and
  many more besides, which the instance rejects.
\<close>

definition is_digit :: "char \<Rightarrow> bool" where
  "is_digit c \<longleftrightarrow> (let n = (of_char c :: nat) in 48 \<le> n \<and> n \<le> 57)"

definition all_digits :: "string \<Rightarrow> bool" where
  "all_digits s \<longleftrightarrow> s \<noteq> [] \<and> list_all is_digit s"

definition nat_of_digits :: "string \<Rightarrow> nat" where
  "nat_of_digits s = fold (\<lambda>c n. 10 * n + (of_char c - 48)) s 0"

definition demo_int_str :: "string \<Rightarrow> int option" where
  "demo_int_str s =
     (case s of
        [] \<Rightarrow> None
      | c # cs \<Rightarrow>
          if c = CHR ''-'' then (if all_digits cs then Some (- int (nat_of_digits cs)) else None)
          else if c = CHR ''+'' then (if all_digits cs then Some (int (nat_of_digits cs)) else None)
          else if all_digits s then Some (int (nat_of_digits s)) else None)"

definition demo_unsigned :: "string \<Rightarrow> real option" where
  "demo_unsigned s =
     (let ip = takeWhile (\<lambda>c. c \<noteq> CHR ''.'') s; rest = dropWhile (\<lambda>c. c \<noteq> CHR ''.'') s
      in if \<not> all_digits ip then None
         else if rest = [] then Some (real (nat_of_digits ip))
         else if all_digits (tl rest)
              then Some (real (nat_of_digits ip) + real (nat_of_digits (tl rest)) / 10 ^ length (tl rest))
              else None)"

definition demo_float_str :: "string \<Rightarrow> pyfloat option" where
  "demo_float_str s =
     (if s = ''nan'' then Some NaN
      else (case s of
              [] \<Rightarrow> None
            | c # cs \<Rightarrow>
                if c = CHR ''-'' then map_option (\<lambda>r. Fin (- r)) (demo_unsigned cs)
                else map_option Fin (demo_unsigned s)))"

definition days_in_month :: "nat \<Rightarrow> nat \<Rightarrow> nat" where
  "days_in_month y m =
     (if m = 2 then (if y mod 4 = 0 \<and> (y mod 100 \<noteq> 0 \<or> y mod 400 = 0) then 29 else 28)
      else if m \<in> {4, 6, 9, 11} then 30 else 31)"

definition demo_to_datetime :: "string \<Rightarrow> timestamp option" where
  "demo_to_datetime s =
     (let y = take 4 s; m = take 2 (drop 5 s); d = take 2 (drop 8 s);
          hh = take 2 (drop 11 s); mi = take 2 (drop 14 s); ss = drop 17 s
      in if length s = 19 \<and> map (\<lambda>i. s ! i) [4, 7, 10, 13, 16] = ''-- ::'' \<and>
            list_all all_digits [y, m, d, hh, mi, ss] \<and>
            1678 \<le> nat_of_digits y \<and> nat_of_digits y \<le> 2261 \<and>
            1 \<le> nat_of_digits m \<and> nat_of_digits m \<le> 12 \<and>
            1 \<le> nat_of_digits d \<and> nat_of_digits d \<le> days_in_month (nat_of_digits y) (nat_of_digits m) \<and>
            nat_of_digits hh < 24 \<and> nat_of_digits mi < 60 \<and> nat_of_digits ss < 60
         then Some (Timestamp (nat_of_digits y) (nat_of_digits m) (nat_of_digits d))
         else None)"

text \<open>
  The calendar date of a timestamp: the year as Python on Linux writes it, without padding,
  then month and day with two digits each. For the years 1000 to 9999, which are all that
  \<open>demo_to_datetime\<close> yields, this is the form \<^verbatim>\<open>YYYY-MM-DD\<close>.
\<close>

definition zfill :: "nat \<Rightarrow> string \<Rightarrow> string" where
  "zfill w s = replicate (w - length s) (CHR ''0'') @ s"

fun demo_strftime :: "timestamp \<Rightarrow> string option" where
  "demo_strftime NaT = None"
| "demo_strftime (Timestamp y m d) =
     Some (digits y @ ''-'' @ zfill 2 (digits m) @ ''-'' @ zfill 2 (digits d))"

text \<open>
  The text of a float: its decimal expansion, cut after 16 digits of the fraction. Python
  prints the shortest decimal that reads back as the same float, which is this expansion
  for a float with a short one such as 62.3.
\<close>

fun frac_digits :: "nat \<Rightarrow> real \<Rightarrow> string" where
  "frac_digits 0 x = []"
| "frac_digits (Suc k) x =
     (if x = 0 then [] else digit (nat \<lfloor>x * 10\<rfloor>) # frac_digits k (x * 10 - of_int \<lfloor>x * 10\<rfloor>))"

definition demo_str_float :: "real \<Rightarrow> string" where
  "demo_str_float r =
     (let a = \<bar>r\<bar>; ip = \<lfloor>a\<rfloor>; fr = frac_digits 16 (a - of_int ip)
      in (if r < 0 then ''-'' else []) @ digits (nat ip) @ ''.'' @ (if fr = [] then ''0'' else fr))"

definition demo_lib :: pylib where
  "demo_lib = \<lparr>to_datetime = demo_to_datetime, strftime = demo_strftime,
               str_float = demo_str_float, int_str = demo_int_str,
               float_str = demo_float_str\<rparr>"

section \<open>Example files and databases\<close>

text \<open>
  Data frames as pandas would read them from small CSV files, and two states of the table,
  on which the model is run below.
\<close>

definition two_formats_df :: dataframe where
  "two_formats_df =
     \<lparr>columns = [''date'', ''steps'', ''totalSleep'', ''weight''],
      cells = [[StrV ''2024-01-01'', IntV 4000, FloatV (Fin 7), FloatV (Fin 62.3)],
               [StrV ''2024-01-01 08:00:00'', IntV 9000, FloatV (Fin 450), FloatV NaN]]\<rparr>"

definition first_import_df :: dataframe where
  "first_import_df =
     \<lparr>columns = [''date'', ''steps'', ''totalSleep'', ''weight''],
      cells = [[StrV ''2024-01-01'', IntV 4000, FloatV (Fin 7), FloatV (Fin 62.3)]]\<rparr>"

definition second_import_df :: dataframe where
  "second_import_df =
     \<lparr>columns = [''date'', ''steps''],
      cells = [[StrV ''2024-01-01 08:00:00'', IntV 9000]]\<rparr>"

definition bad_steps_df :: dataframe where
  "bad_steps_df =
     \<lparr>columns = [''date'', ''steps''],
      cells = [[StrV ''2024-01-01'', StrV ''8000''],
               [StrV ''2024-01-02'', StrV ''abc'']]\<rparr>"

definition good_steps_df :: dataframe where
  "good_steps_df =
     \<lparr>columns = [''date'', ''steps''],
      cells = [[StrV ''2024-01-01'', StrV ''8000'']]\<rparr>"

definition long_dates_df :: dataframe where
  "long_dates_df =
     \<lparr>columns = [''date'', ''steps''],
      cells = [[StrV ''2024-03-05 14:30:00'', IntV 100],
               [StrV ''not-a-date!!'', IntV 200]]\<rparr>"

definition short_dates_df :: dataframe where
  "short_dates_df =
     \<lparr>columns = [''date'', ''steps''],
      cells = [[StrV ''2024-03-05'', IntV 100],
               [StrV ''not a date'', IntV 200]]\<rparr>"

definition time_df :: dataframe where
  "time_df =
     \<lparr>columns = [''Time'', ''steps''],
      cells = [[StrV ''2024-01-01'', IntV 5000]]\<rparr>"

definition unknown_df :: dataframe where
  "unknown_df =
     \<lparr>columns = [''giorno'', ''passi''],
      cells = [[StrV ''2024-01-01'', IntV 5000]]\<rparr>"


definition weights_db :: database where
  "weights_db =
     \<lparr>zepp_data =
        [\<lparr>rowid = 1, date = ''2024-05-12'', steps = 7000, sleep_hours = Some 6,
          deep_sleep_min = 0, min_heart_rate = 0, max_heart_rate = 0, body_weight = Some 62.3\<rparr>,
         \<lparr>rowid = 2, date = ''2024-05-10'', steps = 5000, sleep_hours = Some 7,
          deep_sleep_min = 0, min_heart_rate = 0, max_heart_rate = 0, body_weight = Some 0\<rparr>,
         \<lparr>rowid = 3, date = ''2024-05-13'', steps = 8000, sleep_hours = Some 7.5,
          deep_sleep_min = 0, min_heart_rate = 0, max_heart_rate = 0, body_weight = Some 0\<rparr>,
         \<lparr>rowid = 4, date = ''2024-05-11'', steps = 6000, sleep_hours = Some 8,
          deep_sleep_min = 0, min_heart_rate = 0, max_heart_rate = 0, body_weight = Some 0\<rparr>],
      zepp_seq = 4\<rparr>"

definition old_weight_db :: database where
  "old_weight_db =
     \<lparr>zepp_data =
        [\<lparr>rowid = 1, date = ''2020-01-01'', steps = 7000, sleep_hours = Some 8,
          deep_sleep_min = 0, min_heart_rate = 0, max_heart_rate = 0, body_weight = Some 70\<rparr>],
      zepp_seq = 1\<rparr>"

section \<open>Running the model\<close>

text \<open>
  The defining equations, collected for the simplifier, and the values of the few functions
  that it does not compute from them.
\<close>

lemmas import_defs =
  save_zepp_data_def iterrows_def default_mapping_def fresh_db_def
  date_cell_def row_params_def row_get_def normalize_date_def or_zero_def
  sleep_unit_heuristic_def execute_upsert_def insert_or_replace_def next_rowid_def sqlite_int_def
  Let_def

lemmas mapper_defs =
  process_zepp_csv_def resolve_mapping_def default_mapping_def Let_def

lemmas dashboard_defs =
  select_recent_def dashboard_kpis_def curr_weight_def positive_weight_def avg_sleep_def
  series_mean_def Let_def

lemmas demo_defs =
  demo_lib_def demo_int_str_def demo_float_str_def demo_unsigned_def demo_to_datetime_def
  days_in_month_def all_digits_def is_digit_def nat_of_digits_def Let_def

lemma strftime_examples:
  "demo_strftime (Timestamp 2024 (Suc 0) (Suc 0)) = Some ''2024-01-01''"
  "demo_strftime (Timestamp 2024 3 5) = Some ''2024-03-05''"
  by code_simp+

lemma date_like_examples:
  "date_like ''Time''" "\<not> date_like ''steps''" "\<not> date_like ''giorno''" "\<not> date_like ''passi''"
  by code_simp+

section \<open>The upsert\<close>

subsection \<open>Row ids and the statement INSERT OR REPLACE\<close>

lemma fold_max_ge_init: "(a::int) \<le> fold max xs a"
  by (induction xs arbitrary: a) (auto intro: order_trans [OF max.cobounded2])

lemma fold_max_ge_elem: "x \<in> set xs \<Longrightarrow> (x::int) \<le> fold max xs a"
proof (induction xs arbitrary: a)
  case Nil
  then show ?case by simp
next
  case (Cons y ys)
  show ?case
  proof (cases "x = y")
    case True
    have "y \<le> max y a" by simp
    also have "\<dots> \<le> fold max ys (max y a)" by (rule fold_max_ge_init)
    finally show ?thesis using True by simp
  next
    case False
    with Cons show ?thesis by simp
  qed
qed

lemma next_rowid_gt_row: "r \<in> set (zepp_data db) \<Longrightarrow> rowid r < next_rowid db"
  using fold_max_ge_elem [of "rowid r" "map rowid (zepp_data db)" "zepp_seq db"]
  by (simp add: next_rowid_def)

lemma next_rowid_gt_seq: "zepp_seq db < next_rowid db"
  using fold_max_ge_init [of "zepp_seq db" "map rowid (zepp_data db)"]
  by (simp add: next_rowid_def)

lemma insert_or_replace_same:
  "filter (\<lambda>r. date r = d) (zepp_data (insert_or_replace db (d, st, sl, ds, mn, mx, bw))) =
     [\<lparr>rowid = next_rowid db, date = d, steps = st, sleep_hours = sl, deep_sleep_min = ds,
       min_heart_rate = mn, max_heart_rate = mx, body_weight = bw\<rparr>]"
  by (simp add: insert_or_replace_def)

lemma insert_or_replace_other:
  "d' \<noteq> d \<Longrightarrow>
   filter (\<lambda>r. date r = d') (zepp_data (insert_or_replace db (d, st, sl, ds, mn, mx, bw))) =
   filter (\<lambda>r. date r = d') (zepp_data db)"
  by (auto simp: insert_or_replace_def intro: filter_cong)

lemma insert_or_replace_frame:
  "filter (\<lambda>r. date r \<noteq> d) (zepp_data (insert_or_replace db (d, st, sl, ds, mn, mx, bw))) =
   filter (\<lambda>r. date r \<noteq> d) (zepp_data db)"
  by (simp add: insert_or_replace_def)

lemma insert_or_replace_dates:
  "date ` set (zepp_data (insert_or_replace db (d, st, sl, ds, mn, mx, bw))) =
   insert d (date ` set (zepp_data db))"
  by (auto simp: insert_or_replace_def)

lemma insert_or_replace_distinct:
  "distinct (map date (zepp_data db)) \<Longrightarrow>
   distinct (map date (zepp_data (insert_or_replace db (d, st, sl, ds, mn, mx, bw))))"
  by (auto simp: insert_or_replace_def distinct_map_filter)

lemma execute_upsert_Inr:
  "execute_upsert conn (d, st, sl, ds, mn, mx, w) = Inr conn' \<Longrightarrow>
   conn' = insert_or_replace conn (d, st, bind_real sl, ds, mn, mx, bind_real w)"
  by (simp add: execute_upsert_def split: if_splits)

subsection \<open>The loop over the rows\<close>

lemma row_params_date:
  "row_params lib mapping row c = Inr (d, st, sl, ds, mn, mx, w) \<Longrightarrow>
   d = normalize_date lib (str_cell lib c)"
  by (auto simp: row_params_def Let_def split: sum.splits)

lemma save_rows_append:
  "save_rows lib mapping (xs @ ys) (conn, k) =
     (case save_rows lib mapping xs (conn, k) of
        Inl e \<Rightarrow> Inl e
      | Inr s \<Rightarrow> save_rows lib mapping ys s)"
proof (induction xs arbitrary: conn k)
  case Nil
  show ?case by simp
next
  case (Cons x xs)
  show ?case
    by (simp add: Cons split: option.split sum.split)
qed

lemma save_rows_keeps_other_dates:
  "save_rows lib mapping rows (conn, k) = Inr (conn', k') \<Longrightarrow>
   \<forall>r\<in>set rows. \<forall>c. date_cell mapping r = Some c \<longrightarrow> normalize_date lib (str_cell lib c) \<noteq> d \<Longrightarrow>
   filter (\<lambda>r. date r = d) (zepp_data conn') = filter (\<lambda>r. date r = d) (zepp_data conn)"
proof (induction rows arbitrary: conn k)
  case Nil
  then show ?case by simp
next
  case (Cons row rows)
  show ?case
  proof (cases "date_cell mapping row")
    case None
    with Cons.prems have "save_rows lib mapping rows (conn, k) = Inr (conn', k')" by simp
    with Cons.IH Cons.prems(2) show ?thesis by simp
  next
    case (Some c)
    with Cons.prems(1) obtain p where p: "row_params lib mapping row c = Inr p"
      by (cases "row_params lib mapping row c") auto
    obtain d0 st sl ds mn mx w where p_eq: "p = (d0, st, sl, ds, mn, mx, w)"
      by (cases p) auto
    from Cons.prems(1) Some p obtain conn1 where
      ex: "execute_upsert conn p = Inr conn1" and
      rest: "save_rows lib mapping rows (conn1, k + 1) = Inr (conn', k')"
      by (cases "execute_upsert conn p") auto
    from p p_eq have "d0 = normalize_date lib (str_cell lib c)"
      by (simp add: row_params_date)
    with Cons.prems(2) Some have neq: "d \<noteq> d0" by auto
    from ex p_eq have "conn1 = insert_or_replace conn (d0, st, bind_real sl, ds, mn, mx, bind_real w)"
      by (simp add: execute_upsert_Inr)
    with neq have "filter (\<lambda>r. date r = d) (zepp_data conn1) = filter (\<lambda>r. date r = d) (zepp_data conn)"
      by (simp add: insert_or_replace_other)
    moreover from Cons.IH [OF rest] Cons.prems(2)
    have "filter (\<lambda>r. date r = d) (zepp_data conn') = filter (\<lambda>r. date r = d) (zepp_data conn1)"
      by simp
    ultimately show ?thesis by simp
  qed
qed

lemma save_rows_dates:
  "save_rows lib mapping rows (conn, k) = Inr (conn', k') \<Longrightarrow>
   date ` set (zepp_data conn') =
     date ` set (zepp_data conn) \<union>
     {normalize_date lib (str_cell lib c) | r c. r \<in> set rows \<and> date_cell mapping r = Some c}"
proof (induction rows arbitrary: conn k)
  case Nil
  then show ?case by simp
next
  case (Cons row rows)
  show ?case
  proof (cases "date_cell mapping row")
    case None
    with Cons.prems have "save_rows lib mapping rows (conn, k) = Inr (conn', k')" by simp
    from Cons.IH [OF this] None show ?thesis by auto
  next
    case (Some c)
    with Cons.prems(1) obtain p where p: "row_params lib mapping row c = Inr p"
      by (cases "row_params lib mapping row c") auto
    obtain d0 st sl ds mn mx w where p_eq: "p = (d0, st, sl, ds, mn, mx, w)"
      by (cases p) auto
    from Cons.prems(1) Some p obtain conn1 where
      ex: "execute_upsert conn p = Inr conn1" and
      rest: "save_rows lib mapping rows (conn1, k + 1) = Inr (conn', k')"
      by (cases "execute_upsert conn p") auto
    from p p_eq have d0: "d0 = normalize_date lib (str_cell lib c)"
      by (simp add: row_params_date)
    from ex p_eq have "conn1 = insert_or_replace conn (d0, st, bind_real sl, ds, mn, mx, bind_real w)"
      by (simp add: execute_upsert_Inr)
    then have "date ` set (zepp_data conn1) = insert d0 (date ` set (zepp_data conn))"
      by (simp add: insert_or_replace_dates)
    with Cons.IH [OF rest] d0 Some show ?thesis by auto
  qed
qed

lemma save_rows_fails:
  "row \<in> set rows \<Longrightarrow> date_cell mapping row = Some c \<Longrightarrow>
   row_params lib mapping row c = Inl e \<Longrightarrow>
   \<exists>e'. save_rows lib mapping rows (conn, k) = Inl e'"
proof (induction rows arbitrary: conn k)
  case Nil
  then show ?case by simp
next
  case (Cons x rows)
  show ?case
  proof (cases "x = row")
    case True
    with Cons.prems show ?thesis by simp
  next
    case False
    with Cons.prems have "row \<in> set rows" by simp
    from Cons.IH [OF this Cons.prems(2,3)]
    have "\<exists>e'. save_rows lib mapping rows s = Inl e'" for s
      by (cases s) simp
    then show ?thesis
      by (auto split: option.split sum.split)
  qed
qed

lemma row_params_int_fails:
  "field \<in> {''steps'', ''deep_sleep_min'', ''min_heart_rate'', ''max_heart_rate''} \<Longrightarrow>
   py_int lib (or_zero (row_get mapping row field)) = Inl e \<Longrightarrow>
   \<exists>e'. row_params lib mapping row c = Inl e'"
  by (auto simp: row_params_def Let_def split: sum.split)

lemma row_params_float_fails:
  "field \<in> {''sleep_hours'', ''body_weight''} \<Longrightarrow>
   py_float lib (or_zero (row_get mapping row field)) = Inl e \<Longrightarrow>
   \<exists>e'. row_params lib mapping row c = Inl e'"
  by (auto simp: row_params_def Let_def split: sum.split)

lemma save_zepp_data_success:
  "save_zepp_data lib db df mapping = (db', [Success_saved n]) \<Longrightarrow>
   save_rows lib mapping (iterrows df) (db, 0) = Inr (db', n)"
  by (auto simp: save_zepp_data_def split: sum.splits)

lemma save_zepp_data_fails:
  "save_rows lib mapping (iterrows df) (db, 0) = Inl e \<Longrightarrow>
   save_zepp_data lib db df mapping = (db, [Error_save e])"
  by (simp add: save_zepp_data_def)

text \<open>
  The column \<^verbatim>\<open>date\<close> is UNIQUE: no import makes two rows of one date.
\<close>

lemma save_rows_distinct:
  "save_rows lib mapping rows (conn, k) = Inr (conn', k') \<Longrightarrow>
   distinct (map date (zepp_data conn)) \<Longrightarrow> distinct (map date (zepp_data conn'))"
proof (induction rows arbitrary: conn k)
  case Nil
  then show ?case by simp
next
  case (Cons row rows)
  show ?case
  proof (cases "date_cell mapping row")
    case None
    with Cons.prems have "save_rows lib mapping rows (conn, k) = Inr (conn', k')" by simp
    from Cons.IH [OF this Cons.prems(2)] show ?thesis .
  next
    case (Some c)
    with Cons.prems(1) obtain p where p: "row_params lib mapping row c = Inr p"
      by (cases "row_params lib mapping row c") auto
    obtain d0 st sl ds mn mx w where p_eq: "p = (d0, st, sl, ds, mn, mx, w)"
      by (cases p) auto
    from Cons.prems(1) Some p obtain conn1 where
      ex: "execute_upsert conn p = Inr conn1" and
      rest: "save_rows lib mapping rows (conn1, k + 1) = Inr (conn', k')"
      by (cases "execute_upsert conn p") auto
    from ex p_eq have "conn1 = insert_or_replace conn (d0, st, bind_real sl, ds, mn, mx, bind_real w)"
      by (simp add: execute_upsert_Inr)
    with Cons.prems(2) have "distinct (map date (zepp_data conn1))"
      by (simp add: insert_or_replace_distinct)
    from Cons.IH [OF rest this] show ?thesis .
  qed
qed

lemma save_zepp_data_distinct:
  "distinct (map date (zepp_data db)) \<Longrightarrow>
   distinct (map date (zepp_data (fst (save_zepp_data lib db df mapping))))"
  by (auto simp: save_zepp_data_def split: sum.split dest: save_rows_distinct)

subsection \<open>One record per date\<close>

text \<open>
  Claim C1. Two upserts whose rows normalize to the same date leave exactly one record of
  that date, with the values of the later row and none of the earlier one. The database
  before the import is arbitrary, so the earlier row may come from an earlier import or
  stand before the later one in the same data frame: when an import succeeds, the records
  of the date \<open>d\<close> are the single record made from the last row of the frame that
  normalizes to \<open>d\<close>.
\<close>

theorem upsert_same_date_one_record:
  assumes ok: "save_zepp_data lib db df mapping = (db', [Success_saved n])"
    and rows: "iterrows df = before @ row # after"
    and cell: "date_cell mapping row = Some c"
    and vals: "row_params lib mapping row c = Inr (d, st, sl, ds, mn, mx, w)"
    and last: "\<forall>r\<in>set after. \<forall>c'. date_cell mapping r = Some c' \<longrightarrow>
                 normalize_date lib (str_cell lib c') \<noteq> d"
  shows "\<exists>i. filter (\<lambda>r. date r = d) (zepp_data db') =
           [\<lparr>rowid = i, date = d, steps = st, sleep_hours = bind_real sl, deep_sleep_min = ds,
             min_heart_rate = mn, max_heart_rate = mx, body_weight = bind_real w\<rparr>]"
proof -
  from save_zepp_data_success [OF ok] rows
  have run: "save_rows lib mapping (before @ row # after) (db, 0) = Inr (db', n)"
    by simp
  then obtain conn0 k0 where
    pre: "save_rows lib mapping before (db, 0) = Inr (conn0, k0)" and
    post: "save_rows lib mapping (row # after) (conn0, k0) = Inr (db', n)"
    by (cases "save_rows lib mapping before (db, 0)") (auto simp: save_rows_append)
  from post cell vals obtain conn1 where
    ex: "execute_upsert conn0 (d, st, sl, ds, mn, mx, w) = Inr conn1" and
    rest: "save_rows lib mapping after (conn1, k0 + 1) = Inr (db', n)"
    by (cases "execute_upsert conn0 (d, st, sl, ds, mn, mx, w)") auto
  from ex have "conn1 = insert_or_replace conn0 (d, st, bind_real sl, ds, mn, mx, bind_real w)"
    by (rule execute_upsert_Inr)
  then have "filter (\<lambda>r. date r = d) (zepp_data conn1) =
      [\<lparr>rowid = next_rowid conn0, date = d, steps = st, sleep_hours = bind_real sl,
        deep_sleep_min = ds, min_heart_rate = mn, max_heart_rate = mx,
        body_weight = bind_real w\<rparr>]"
    by (simp add: insert_or_replace_same)
  moreover from save_rows_keeps_other_dates [OF rest last]
  have "filter (\<lambda>r. date r = d) (zepp_data db') = filter (\<lambda>r. date r = d) (zepp_data conn1)" .
  ultimately show ?thesis by auto
qed

text \<open>
  The rows dated \<^verbatim>\<open>2024-01-01\<close> and \<^verbatim>\<open>2024-01-01 08:00:00\<close>, in one frame and in two
  imports: one record, with an empty weight or with the zeros of the second file, not the
  62.3 of the first row.
\<close>

theorem upsert_same_date_one_record_witness:
  "save_zepp_data demo_lib fresh_db two_formats_df default_mapping =
     (\<lparr>zepp_data =
         [\<lparr>rowid = 2, date = ''2024-01-01'', steps = 9000, sleep_hours = Some 7.5,
           deep_sleep_min = 0, min_heart_rate = 0, max_heart_rate = 0, body_weight = None\<rparr>],
       zepp_seq = 2\<rparr>, [Success_saved 2]) \<and>
   (\<exists>i. filter (\<lambda>r. date r = ''2024-01-01'')
          (zepp_data (fst (save_zepp_data demo_lib fresh_db two_formats_df default_mapping))) =
        [\<lparr>rowid = i, date = ''2024-01-01'', steps = 9000, sleep_hours = Some 7.5,
          deep_sleep_min = 0, min_heart_rate = 0, max_heart_rate = 0, body_weight = None\<rparr>]) \<and>
   (\<exists>i. filter (\<lambda>r. date r = ''2024-01-01'')
          (zepp_data (fst (save_zepp_data demo_lib
             (fst (save_zepp_data demo_lib fresh_db first_import_df default_mapping))
             second_import_df default_mapping))) =
        [\<lparr>rowid = i, date = ''2024-01-01'', steps = 9000, sleep_hours = Some 0,
          deep_sleep_min = 0, min_heart_rate = 0, max_heart_rate = 0, body_weight = Some 0\<rparr>])"
proof -
  let ?db2 = "\<lparr>zepp_data =
         [\<lparr>rowid = 2, date = ''2024-01-01'', steps = 9000, sleep_hours = Some 7.5,
           deep_sleep_min = 0, min_heart_rate = 0, max_heart_rate = 0, body_weight = None\<rparr>],
       zepp_seq = 2\<rparr>"
  let ?r = "iterrows two_formats_df ! 1"
  have ok: "save_zepp_data demo_lib fresh_db two_formats_df default_mapping = (?db2, [Success_saved 2])"
    by (simp add: import_defs demo_defs two_formats_df_def first_import_df_def second_import_df_def
        strftime_examples del: demo_strftime.simps)
  have rows: "iterrows two_formats_df = [iterrows two_formats_df ! 0] @ ?r # []"
    by (simp add: import_defs demo_defs two_formats_df_def first_import_df_def second_import_df_def
        strftime_examples del: demo_strftime.simps)
  have cell: "date_cell default_mapping ?r = Some (StrV ''2024-01-01 08:00:00'')"
    by (simp add: import_defs demo_defs two_formats_df_def first_import_df_def second_import_df_def
        strftime_examples del: demo_strftime.simps)
  have vals: "row_params demo_lib default_mapping ?r (StrV ''2024-01-01 08:00:00'') =
      Inr (''2024-01-01'', 9000, Fin 7.5, 0, 0, 0, NaN)"
    by (simp add: import_defs demo_defs two_formats_df_def first_import_df_def second_import_df_def
        strftime_examples del: demo_strftime.simps)
  have last: "\<forall>r\<in>set []. \<forall>c'. date_cell default_mapping r = Some c' \<longrightarrow>
      normalize_date demo_lib (str_cell demo_lib c') \<noteq> ''2024-01-01''"
    by simp
  from upsert_same_date_one_record [OF ok rows cell vals last]
  have same_batch: "\<exists>i. filter (\<lambda>r. date r = ''2024-01-01'') (zepp_data ?db2) =
        [\<lparr>rowid = i, date = ''2024-01-01'', steps = 9000, sleep_hours = Some 7.5,
          deep_sleep_min = 0, min_heart_rate = 0, max_heart_rate = 0, body_weight = None\<rparr>]"
    by simp
  let ?db1 = "fst (save_zepp_data demo_lib fresh_db first_import_df default_mapping)"
  let ?db3 = "\<lparr>zepp_data =
         [\<lparr>rowid = 2, date = ''2024-01-01'', steps = 9000, sleep_hours = Some 0,
           deep_sleep_min = 0, min_heart_rate = 0, max_heart_rate = 0, body_weight = Some 0\<rparr>],
       zepp_seq = 2\<rparr>"
  let ?s = "iterrows second_import_df ! 0"
  have ok2: "save_zepp_data demo_lib ?db1 second_import_df default_mapping = (?db3, [Success_saved 1])"
    by (simp add: import_defs demo_defs two_formats_df_def first_import_df_def second_import_df_def
        strftime_examples del: demo_strftime.simps)
  have rows2: "iterrows second_import_df = [] @ ?s # []"
    by (simp add: import_defs demo_defs two_formats_df_def first_import_df_def second_import_df_def
        strftime_examples del: demo_strftime.simps)
  have cell2: "date_cell default_mapping ?s = Some (StrV ''2024-01-01 08:00:00'')"
    by (simp add: import_defs demo_defs two_formats_df_def first_import_df_def second_import_df_def
        strftime_examples del: demo_strftime.simps)
  have vals2: "row_params demo_lib default_mapping ?s (StrV ''2024-01-01 08:00:00'') =
      Inr (''2024-01-01'', 9000, Fin 0, 0, 0, 0, Fin 0)"
    by (simp add: import_defs demo_defs two_formats_df_def first_import_df_def second_import_df_def
        strftime_examples del: demo_strftime.simps)
  from upsert_same_date_one_record [OF ok2 rows2 cell2 vals2 last]
  have separate: "\<exists>i. filter (\<lambda>r. date r = ''2024-01-01'') (zepp_data ?db3) =
        [\<lparr>rowid = i, date = ''2024-01-01'', steps = 9000, sleep_hours = Some 0,
          deep_sleep_min = 0, min_heart_rate = 0, max_heart_rate = 0, body_weight = Some 0\<rparr>]"
    by simp
  from ok same_batch separate ok2 show ?thesis by simp
qed

subsection \<open>A cell that is no number\<close>

text \<open>
  Claim C2 says that a numeric cell that cannot be parsed becomes zero and that the import
  goes on with the next row. The source has one \<^verbatim>\<open>try\<close> around the whole loop and commits
  after it. With the second row's steps \<^verbatim>\<open>abc\<close> the import reports the error and stores
  nothing, not even the first row, which alone is imported well.
\<close>

theorem unparseable_steps_counterexample:
  "save_zepp_data demo_lib fresh_db good_steps_df default_mapping =
     (\<lparr>zepp_data =
         [\<lparr>rowid = 1, date = ''2024-01-01'', steps = 8000, sleep_hours = Some 0,
           deep_sleep_min = 0, min_heart_rate = 0, max_heart_rate = 0, body_weight = Some 0\<rparr>],
       zepp_seq = 1\<rparr>, [Success_saved 1]) \<and>
   cells bad_steps_df = cells good_steps_df @ [[StrV ''2024-01-02'', StrV ''abc'']] \<and>
   save_zepp_data demo_lib fresh_db bad_steps_df default_mapping =
     (\<lparr>zepp_data = [], zepp_seq = 0\<rparr>, [Error_save ValueError])"
  by (simp add: import_defs demo_defs good_steps_df_def bad_steps_df_def
        strftime_examples del: demo_strftime.simps)

text \<open>
  Claim C2, as the source has it. A cell that is false for Python (0, 0.0, the empty string)
  and a column that the row does not have give zero. A non-empty string that \<^verbatim>\<open>int\<close>
  rejects raises. When a coercion of a row that has a date raises, the import shows the
  error and leaves the database as it was before the call: no row of the file is stored.
\<close>

theorem coercion_failure_aborts_batch:
  "(\<not> truthy x \<longrightarrow>
      py_int lib (or_zero x) = Inr 0 \<and> py_float lib (or_zero x) = Inr (Fin 0)) \<and>
   (map_of mapping f = Some col \<and> map_of row col = None \<longrightarrow>
      row_get mapping row f = IntV 0) \<and>
   (s \<noteq> [] \<and> int_str lib s = None \<longrightarrow> py_int lib (or_zero (StrV s)) = Inl ValueError) \<and>
   (row \<in> set (iterrows df) \<and> date_cell mapping row = Some c \<and>
    (field \<in> {''steps'', ''deep_sleep_min'', ''min_heart_rate'', ''max_heart_rate''} \<and>
       py_int lib (or_zero (row_get mapping row field)) = Inl e \<or>
     field \<in> {''sleep_hours'', ''body_weight''} \<and>
       py_float lib (or_zero (row_get mapping row field)) = Inl e) \<longrightarrow>
    (\<exists>e'. save_zepp_data lib db df mapping = (db, [Error_save e'])))"
proof (intro conjI impI)
  assume "\<not> truthy x"
  then show "py_int lib (or_zero x) = Inr 0"
    and "py_float lib (or_zero x) = Inr (Fin 0)"
    by (simp_all add: or_zero_def)
next
  assume "map_of mapping f = Some col \<and> map_of row col = None"
  then show "row_get mapping row f = IntV 0"
    by (simp add: row_get_def)
next
  assume "s \<noteq> [] \<and> int_str lib s = None"
  then show "py_int lib (or_zero (StrV s)) = Inl ValueError"
    by (simp add: or_zero_def)
next
  assume a: "row \<in> set (iterrows df) \<and> date_cell mapping row = Some c \<and>
    (field \<in> {''steps'', ''deep_sleep_min'', ''min_heart_rate'', ''max_heart_rate''} \<and>
       py_int lib (or_zero (row_get mapping row field)) = Inl e \<or>
     field \<in> {''sleep_hours'', ''body_weight''} \<and>
       py_float lib (or_zero (row_get mapping row field)) = Inl e)"
  then have "\<exists>e1. row_params lib mapping row c = Inl e1"
  proof (elim conjE disjE)
    assume "field \<in> {''steps'', ''deep_sleep_min'', ''min_heart_rate'', ''max_heart_rate''}"
      and "py_int lib (or_zero (row_get mapping row field)) = Inl e"
    then show ?thesis by (rule row_params_int_fails)
  next
    assume "field \<in> {''sleep_hours'', ''body_weight''}"
      and "py_float lib (or_zero (row_get mapping row field)) = Inl e"
    then show ?thesis by (rule row_params_float_fails)
  qed
  then obtain e1 where e1: "row_params lib mapping row c = Inl e1" ..
  from a have "row \<in> set (iterrows df)" and "date_cell mapping row = Some c" by simp_all
  from save_rows_fails [OF this e1]
  obtain e' where "save_rows lib mapping (iterrows df) (db, 0) = Inl e'" ..
  then show "\<exists>e'. save_zepp_data lib db df mapping = (db, [Error_save e'])"
    by (auto simp: save_zepp_data_fails)
qed

theorem coercion_failure_aborts_batch_witness:
  "\<not> truthy (StrV []) \<and>
   py_int demo_lib (or_zero (StrV [])) = Inr 0 \<and>
   py_float demo_lib (or_zero (StrV [])) = Inr (Fin 0) \<and>
   map_of default_mapping ''body_weight'' = Some ''weight'' \<and>
   map_of (iterrows bad_steps_df ! 1) ''weight'' = None \<and>
   row_get default_mapping (iterrows bad_steps_df ! 1) ''body_weight'' = IntV 0 \<and>
   int_str demo_lib ''abc'' = None \<and>
   py_int demo_lib (or_zero (StrV ''abc'')) = Inl ValueError \<and>
   iterrows bad_steps_df ! 1 \<in> set (iterrows bad_steps_df) \<and>
   date_cell default_mapping (iterrows bad_steps_df ! 1) = Some (StrV ''2024-01-02'') \<and>
   py_int demo_lib (or_zero (row_get default_mapping (iterrows bad_steps_df ! 1) ''steps'')) =
     Inl ValueError \<and>
   (\<exists>e'. save_zepp_data demo_lib fresh_db bad_steps_df default_mapping =
           (fresh_db, [Error_save e']))"
proof -
  let ?r = "iterrows bad_steps_df ! 1"
  have h1: "\<not> truthy (StrV [])" by simp
  have h2: "map_of default_mapping ''body_weight'' = Some ''weight'' \<and> map_of ?r ''weight'' = None"
    by (simp add: import_defs demo_defs bad_steps_df_def
        strftime_examples del: demo_strftime.simps)
  have h3: "''abc'' \<noteq> [] \<and> int_str demo_lib ''abc'' = None"
    by (simp add: import_defs demo_defs bad_steps_df_def
        strftime_examples del: demo_strftime.simps)
  have h4a: "?r \<in> set (iterrows bad_steps_df)" by (simp add: import_defs demo_defs bad_steps_df_def
        strftime_examples del: demo_strftime.simps)
  have h4b: "date_cell default_mapping ?r = Some (StrV ''2024-01-02'')" by (simp add: import_defs demo_defs bad_steps_df_def
        strftime_examples del: demo_strftime.simps)
  have h4c: "py_int demo_lib (or_zero (row_get default_mapping ?r ''steps'')) = Inl ValueError"
    by (simp add: import_defs demo_defs bad_steps_df_def
        strftime_examples del: demo_strftime.simps)
  have h4d: "''steps'' \<in> {''steps'', ''deep_sleep_min'', ''min_heart_rate'', ''max_heart_rate''}"
    by simp
  note t = coercion_failure_aborts_batch [of "StrV []" demo_lib default_mapping
      "''body_weight''" "''weight''" ?r "''abc''" bad_steps_df "StrV ''2024-01-02''" "''steps''"
      ValueError fresh_db]
  from t h1 have c1: "py_int demo_lib (or_zero (StrV [])) = Inr 0 \<and>
      py_float demo_lib (or_zero (StrV [])) = Inr (Fin 0)" by blast
  from t h2 have c2: "row_get default_mapping ?r ''body_weight'' = IntV 0" by blast
  from t h3 have c3: "py_int demo_lib (or_zero (StrV ''abc'')) = Inl ValueError" by blast
  from t h4a h4b h4c h4d
  have c4: "\<exists>e'. save_zepp_data demo_lib fresh_db bad_steps_df default_mapping =
      (fresh_db, [Error_save e'])" by blast
  from h1 h2 h3 h4a h4b h4c c1 c2 c3 c4 show ?thesis by blast
qed

subsection \<open>Hours or minutes of sleep\<close>

text \<open>
  Claim C3. The sleep value \<open>v\<close> of a row becomes \<open>v / 60\<close> when \<open>v > 24\<close> and stays
  \<open>v\<close> otherwise: 30 gives 0.5, 7 gives 7 and 24 gives 24. The value stored for a row is
  this function of the row's sleep cell, made a float.
\<close>

theorem sleep_unit_heuristic_rule:
  "sleep_unit_heuristic (Fin v) = Fin (if v > 24 then v / 60 else v) \<and>
   sleep_unit_heuristic (Fin 30) = Fin 0.5 \<and>
   sleep_unit_heuristic (Fin 7) = Fin 7 \<and>
   sleep_unit_heuristic (Fin 24) = Fin 24 \<and>
   (row_params lib mapping row c = Inr (d, st, sl, ds, mn, mx, w) \<longrightarrow>
      (\<exists>raw_sleep. py_float lib (or_zero (row_get mapping row ''sleep_hours'')) = Inr raw_sleep \<and>
         sl = sleep_unit_heuristic raw_sleep))"
  by (auto simp: sleep_unit_heuristic_def row_params_def Let_def split: sum.splits)

theorem sleep_unit_heuristic_rule_witness:
  "sleep_unit_heuristic (Fin 450) = Fin 7.5 \<and>
   row_params demo_lib default_mapping (iterrows two_formats_df ! 1) (StrV ''2024-01-01 08:00:00'') =
     Inr (''2024-01-01'', 9000, Fin 7.5, 0, 0, 0, NaN) \<and>
   (\<exists>raw_sleep.
      py_float demo_lib (or_zero (row_get default_mapping (iterrows two_formats_df ! 1) ''sleep_hours'')) =
        Inr raw_sleep \<and>
      Fin 7.5 = sleep_unit_heuristic raw_sleep)"
proof -
  let ?r = "iterrows two_formats_df ! 1"
  have vals: "row_params demo_lib default_mapping ?r (StrV ''2024-01-01 08:00:00'') =
      Inr (''2024-01-01'', 9000, Fin 7.5, 0, 0, 0, NaN)"
    by (simp add: import_defs demo_defs two_formats_df_def
        strftime_examples del: demo_strftime.simps)
  note t = sleep_unit_heuristic_rule [of 450 demo_lib default_mapping ?r
      "StrV ''2024-01-01 08:00:00''" "''2024-01-01''" 9000 "Fin 7.5" 0 0 0 NaN]
  from t have "sleep_unit_heuristic (Fin 450) = Fin (if (450::real) > 24 then 450 / 60 else 450)"
    by blast
  then have a: "sleep_unit_heuristic (Fin 450) = Fin 7.5" by simp
  from t vals have b: "\<exists>raw_sleep.
      py_float demo_lib (or_zero (row_get default_mapping ?r ''sleep_hours'')) = Inr raw_sleep \<and>
      Fin 7.5 = sleep_unit_heuristic raw_sleep" by blast
  from a vals b show ?thesis by blast
qed

subsection \<open>The date of a row\<close>

text \<open>
  Claim C4. When an import succeeds, a row whose date text \<open>t\<close> is longer than 10
  characters is stored under what \<^verbatim>\<open>strftime("%Y-%m-%d")\<close> makes of the timestamp that
  \<^verbatim>\<open>pd.to_datetime\<close> reads from \<open>t\<close>, and under the first 10 characters of \<open>t\<close> when
  one of the two calls raises.
\<close>

theorem long_date_is_reduced:
  assumes ok: "save_zepp_data lib db df mapping = (db', [Success_saved n])"
    and row: "row \<in> set (iterrows df)"
    and cell: "date_cell mapping row = Some c"
    and dstr: "str_cell lib c = t"
    and long: "length t > 10"
  shows "(case to_datetime lib t of
            None \<Rightarrow> take 10 t
          | Some dt_obj \<Rightarrow>
              (case strftime lib dt_obj of
                 None \<Rightarrow> take 10 t
               | Some s \<Rightarrow> s)) \<in> date ` set (zepp_data db')"
proof -
  from save_rows_dates [OF save_zepp_data_success [OF ok]] row cell dstr
  have "normalize_date lib t \<in> date ` set (zepp_data db')" by auto
  moreover from long have "normalize_date lib t =
      (case to_datetime lib t of
         None \<Rightarrow> take 10 t
       | Some dt_obj \<Rightarrow>
           (case strftime lib dt_obj of
              None \<Rightarrow> take 10 t
            | Some s \<Rightarrow> s))"
    by (simp add: normalize_date_def)
  ultimately show ?thesis by simp
qed

text \<open>
  \<^verbatim>\<open>2024-03-05 14:30:00\<close> is stored as \<^verbatim>\<open>2024-03-05\<close>, and the 12 characters
  \<^verbatim>\<open>not-a-date!!\<close> as \<^verbatim>\<open>not-a-date\<close>.
\<close>

theorem long_date_is_reduced_witness:
  "save_zepp_data demo_lib fresh_db long_dates_df default_mapping =
     (\<lparr>zepp_data =
         [\<lparr>rowid = 1, date = ''2024-03-05'', steps = 100, sleep_hours = Some 0,
           deep_sleep_min = 0, min_heart_rate = 0, max_heart_rate = 0, body_weight = Some 0\<rparr>,
          \<lparr>rowid = 2, date = ''not-a-date'', steps = 200, sleep_hours = Some 0,
           deep_sleep_min = 0, min_heart_rate = 0, max_heart_rate = 0, body_weight = Some 0\<rparr>],
       zepp_seq = 2\<rparr>, [Success_saved 2]) \<and>
   length ''2024-03-05 14:30:00'' > 10 \<and>
   to_datetime demo_lib ''2024-03-05 14:30:00'' = Some (Timestamp 2024 3 5) \<and>
   strftime demo_lib (Timestamp 2024 3 5) = Some ''2024-03-05'' \<and>
   ''2024-03-05'' \<in> date ` set (zepp_data (fst (save_zepp_data demo_lib fresh_db long_dates_df default_mapping))) \<and>
   length ''not-a-date!!'' = 12 \<and>
   to_datetime demo_lib ''not-a-date!!'' = None \<and>
   ''not-a-date'' \<in> date ` set (zepp_data (fst (save_zepp_data demo_lib fresh_db long_dates_df default_mapping)))"
proof -
  let ?db = "\<lparr>zepp_data =
         [\<lparr>rowid = 1, date = ''2024-03-05'', steps = 100, sleep_hours = Some 0,
           deep_sleep_min = 0, min_heart_rate = 0, max_heart_rate = 0, body_weight = Some 0\<rparr>,
          \<lparr>rowid = 2, date = ''not-a-date'', steps = 200, sleep_hours = Some 0,
           deep_sleep_min = 0, min_heart_rate = 0, max_heart_rate = 0, body_weight = Some 0\<rparr>],
       zepp_seq = 2\<rparr>"
  let ?a = "iterrows long_dates_df ! 0" and ?b = "iterrows long_dates_df ! 1"
  have ok: "save_zepp_data demo_lib fresh_db long_dates_df default_mapping = (?db, [Success_saved 2])"
    by (simp add: import_defs demo_defs long_dates_df_def
        strftime_examples del: demo_strftime.simps)
  have ra: "?a \<in> set (iterrows long_dates_df)" and rb: "?b \<in> set (iterrows long_dates_df)"
    by (simp_all add: import_defs demo_defs long_dates_df_def
        strftime_examples del: demo_strftime.simps)
  have ca: "date_cell default_mapping ?a = Some (StrV ''2024-03-05 14:30:00'')"
    and cb: "date_cell default_mapping ?b = Some (StrV ''not-a-date!!'')"
    by (simp_all add: import_defs demo_defs long_dates_df_def
        strftime_examples del: demo_strftime.simps)
  have sa: "str_cell demo_lib (StrV ''2024-03-05 14:30:00'') = ''2024-03-05 14:30:00''"
    and sb: "str_cell demo_lib (StrV ''not-a-date!!'') = ''not-a-date!!''"
    by simp_all
  have la: "length ''2024-03-05 14:30:00'' > 10" and lb: "length ''not-a-date!!'' > 10"
    by simp_all
  have pa: "to_datetime demo_lib ''2024-03-05 14:30:00'' = Some (Timestamp 2024 3 5)"
    and pb: "to_datetime demo_lib ''not-a-date!!'' = None"
    by (simp_all add: import_defs demo_defs long_dates_df_def
        strftime_examples del: demo_strftime.simps)
  have fa: "strftime demo_lib (Timestamp 2024 3 5) = Some ''2024-03-05''"
    by (simp add: demo_lib_def strftime_examples del: demo_strftime.simps)
  from long_date_is_reduced [OF ok ra ca sa la]
  have a: "''2024-03-05'' \<in> date ` set (zepp_data ?db)"
    by (simp only: pa fa option.case)
  from long_date_is_reduced [OF ok rb cb sb lb]
  have b: "''not-a-date'' \<in> date ` set (zepp_data ?db)"
    by (simp only: pb option.case) simp
  from ok a b la pa pb fa show ?thesis by simp
qed

text \<open>
  Claim C9. When an import succeeds, a row whose date text has at most 10 characters is
  stored under that very text, whatever the text is and whatever the library would make of
  it.
\<close>

theorem short_date_is_stored_verbatim:
  assumes ok: "save_zepp_data lib db df mapping = (db', [Success_saved n])"
    and row: "row \<in> set (iterrows df)"
    and cell: "date_cell mapping row = Some c"
    and dstr: "str_cell lib c = t"
    and short: "length t \<le> 10"
  shows "t \<in> date ` set (zepp_data db')"
proof -
  from save_rows_dates [OF save_zepp_data_success [OF ok]] row cell dstr
  have "normalize_date lib t \<in> date ` set (zepp_data db')" by auto
  moreover from short have "normalize_date lib t = t"
    by (simp add: normalize_date_def)
  ultimately show ?thesis by simp
qed

theorem short_date_is_stored_verbatim_witness:
  "save_zepp_data demo_lib fresh_db short_dates_df default_mapping =
     (\<lparr>zepp_data =
         [\<lparr>rowid = 1, date = ''2024-03-05'', steps = 100, sleep_hours = Some 0,
           deep_sleep_min = 0, min_heart_rate = 0, max_heart_rate = 0, body_weight = Some 0\<rparr>,
          \<lparr>rowid = 2, date = ''not a date'', steps = 200, sleep_hours = Some 0,
           deep_sleep_min = 0, min_heart_rate = 0, max_heart_rate = 0, body_weight = Some 0\<rparr>],
       zepp_seq = 2\<rparr>, [Success_saved 2]) \<and>
   length ''not a date'' \<le> 10 \<and>
   ''not a date'' \<in> date ` set (zepp_data (fst (save_zepp_data demo_lib fresh_db short_dates_df default_mapping)))"
proof -
  let ?db = "\<lparr>zepp_data =
         [\<lparr>rowid = 1, date = ''2024-03-05'', steps = 100, sleep_hours = Some 0,
           deep_sleep_min = 0, min_heart_rate = 0, max_heart_rate = 0, body_weight = Some 0\<rparr>,
          \<lparr>rowid = 2, date = ''not a date'', steps = 200, sleep_hours = Some 0,
           deep_sleep_min = 0, min_heart_rate = 0, max_heart_rate = 0, body_weight = Some 0\<rparr>],
       zepp_seq = 2\<rparr>"
  let ?b = "iterrows short_dates_df ! 1"
  have ok: "save_zepp_data demo_lib fresh_db short_dates_df default_mapping = (?db, [Success_saved 2])"
    by (simp add: import_defs demo_defs short_dates_df_def
        strftime_examples del: demo_strftime.simps)
  have rb: "?b \<in> set (iterrows short_dates_df)" by (simp add: import_defs demo_defs short_dates_df_def
        strftime_examples del: demo_strftime.simps)
  have cb: "date_cell default_mapping ?b = Some (StrV ''not a date'')" by (simp add: import_defs demo_defs short_dates_df_def
        strftime_examples del: demo_strftime.simps)
  have sb: "str_cell demo_lib (StrV ''not a date'') = ''not a date''" by simp
  have lb: "length ''not a date'' \<le> 10" by simp
  from short_date_is_stored_verbatim [OF ok rb cb sb lb]
  have b: "''not a date'' \<in> date ` set (zepp_data ?db)" .
  from ok b lb show ?thesis by simp
qed

subsection \<open>A new id for a replaced record\<close>

text \<open>
  Claim C10. When the statement runs for a date that has a record \<open>old\<close>, the table then
  holds one record of that date, whose id is above every id of the table before (and above
  the sequence), so it is not the id of \<open>old\<close>; \<open>old\<close> is gone, and the records of the
  other dates are the same as before.
\<close>

theorem replacing_upsert_fresh_id:
  assumes ex: "execute_upsert conn (d, st, sl, ds, mn, mx, w) = Inr conn'"
    and old: "old \<in> set (zepp_data conn)" "date old = d"
  shows "\<exists>new. filter (\<lambda>r. date r = d) (zepp_data conn') = [new] \<and>
           rowid new \<noteq> rowid old \<and>
           (\<forall>r\<in>set (zepp_data conn). rowid r < rowid new) \<and>
           zepp_seq conn < rowid new \<and>
           old \<notin> set (zepp_data conn') \<and>
           filter (\<lambda>r. date r \<noteq> d) (zepp_data conn') = filter (\<lambda>r. date r \<noteq> d) (zepp_data conn)"
proof -
  let ?new = "\<lparr>rowid = next_rowid conn, date = d, steps = st, sleep_hours = bind_real sl,
               deep_sleep_min = ds, min_heart_rate = mn, max_heart_rate = mx,
               body_weight = bind_real w\<rparr>"
  from ex have c': "conn' = insert_or_replace conn (d, st, bind_real sl, ds, mn, mx, bind_real w)"
    by (rule execute_upsert_Inr)
  have one: "filter (\<lambda>r. date r = d) (zepp_data conn') = [?new]"
    by (simp add: c' insert_or_replace_same)
  have lt: "\<forall>r\<in>set (zepp_data conn). rowid r < rowid ?new"
    by (simp add: next_rowid_gt_row)
  with old have ne: "rowid ?new \<noteq> rowid old" by auto
  have seq: "zepp_seq conn < rowid ?new"
    by (simp add: next_rowid_gt_seq)
  have gone: "old \<notin> set (zepp_data conn')"
  proof
    assume "old \<in> set (zepp_data conn')"
    with old(2) have "old \<in> set (filter (\<lambda>r. date r = d) (zepp_data conn'))" by simp
    with one have "old = ?new" by simp
    with ne show False by simp
  qed
  have frame: "filter (\<lambda>r. date r \<noteq> d) (zepp_data conn') = filter (\<lambda>r. date r \<noteq> d) (zepp_data conn)"
    by (simp add: c' insert_or_replace_frame)
  from one ne lt seq gone frame show ?thesis by blast
qed

theorem replacing_upsert_fresh_id_witness:
  "execute_upsert weights_db (''2024-05-10'', 1, Fin 2, 3, 4, 5, NaN) =
     Inr \<lparr>zepp_data =
        [\<lparr>rowid = 1, date = ''2024-05-12'', steps = 7000, sleep_hours = Some 6,
          deep_sleep_min = 0, min_heart_rate = 0, max_heart_rate = 0, body_weight = Some 62.3\<rparr>,
         \<lparr>rowid = 3, date = ''2024-05-13'', steps = 8000, sleep_hours = Some 7.5,
          deep_sleep_min = 0, min_heart_rate = 0, max_heart_rate = 0, body_weight = Some 0\<rparr>,
         \<lparr>rowid = 4, date = ''2024-05-11'', steps = 6000, sleep_hours = Some 8,
          deep_sleep_min = 0, min_heart_rate = 0, max_heart_rate = 0, body_weight = Some 0\<rparr>,
         \<lparr>rowid = 5, date = ''2024-05-10'', steps = 1, sleep_hours = Some 2,
          deep_sleep_min = 3, min_heart_rate = 4, max_heart_rate = 5, body_weight = None\<rparr>],
      zepp_seq = 5\<rparr> \<and>
   rowid (zepp_data weights_db ! 1) = 2 \<and> date (zepp_data weights_db ! 1) = ''2024-05-10'' \<and>
   (\<exists>new. filter (\<lambda>r. date r = ''2024-05-10'')
            (zepp_data (projr (execute_upsert weights_db (''2024-05-10'', 1, Fin 2, 3, 4, 5, NaN)))) = [new] \<and>
          rowid new \<noteq> 2)"
proof -
  let ?db = "\<lparr>zepp_data =
        [\<lparr>rowid = 1, date = ''2024-05-12'', steps = 7000, sleep_hours = Some 6,
          deep_sleep_min = 0, min_heart_rate = 0, max_heart_rate = 0, body_weight = Some 62.3\<rparr>,
         \<lparr>rowid = 3, date = ''2024-05-13'', steps = 8000, sleep_hours = Some 7.5,
          deep_sleep_min = 0, min_heart_rate = 0, max_heart_rate = 0, body_weight = Some 0\<rparr>,
         \<lparr>rowid = 4, date = ''2024-05-11'', steps = 6000, sleep_hours = Some 8,
          deep_sleep_min = 0, min_heart_rate = 0, max_heart_rate = 0, body_weight = Some 0\<rparr>,
         \<lparr>rowid = 5, date = ''2024-05-10'', steps = 1, sleep_hours = Some 2,
          deep_sleep_min = 3, min_heart_rate = 4, max_heart_rate = 5, body_weight = None\<rparr>],
      zepp_seq = 5\<rparr>"
  let ?old = "zepp_data weights_db ! 1"
  have ex: "execute_upsert weights_db (''2024-05-10'', 1, Fin 2, 3, 4, 5, NaN) = Inr ?db"
    by (simp add: import_defs weights_db_def)
  have old: "?old \<in> set (zepp_data weights_db)" "date ?old = ''2024-05-10''"
    and oid: "rowid ?old = 2"
    by (simp_all add: weights_db_def)
  from replacing_upsert_fresh_id [OF ex old]
  obtain new where "filter (\<lambda>r. date r = ''2024-05-10'') (zepp_data ?db) = [new]"
    and "rowid new \<noteq> rowid ?old"
    by blast
  with oid have "\<exists>new. filter (\<lambda>r. date r = ''2024-05-10'') (zepp_data ?db) = [new] \<and> rowid new \<noteq> 2"
    by auto
  with ex old oid show ?thesis by simp
qed

section \<open>The column mapper\<close>

lemma starts_with_iff: "starts_with sub s \<longleftrightarrow> (\<exists>v. s = sub @ v)"
  by (induction sub s rule: starts_with.induct) auto

lemma contains_iff: "contains sub s \<longleftrightarrow> (\<exists>u v. s = u @ sub @ v)"
proof (induction s)
  case Nil
  show ?case by auto
next
  case (Cons c cs)
  show ?case
  proof
    assume "contains sub (c # cs)"
    then consider "starts_with sub (c # cs)" | "contains sub cs" by auto
    then show "\<exists>u v. c # cs = u @ sub @ v"
    proof cases
      case 1
      then obtain v where "c # cs = sub @ v" by (auto simp: starts_with_iff)
      then have "c # cs = [] @ sub @ v" by simp
      then show ?thesis by blast
    next
      case 2
      with Cons obtain u v where "cs = u @ sub @ v" by auto
      then have "c # cs = (c # u) @ sub @ v" by simp
      then show ?thesis by blast
    qed
  next
    assume "\<exists>u v. c # cs = u @ sub @ v"
    then obtain u v where uv: "c # cs = u @ sub @ v" by auto
    show "contains sub (c # cs)"
    proof (cases u)
      case Nil
      with uv have "starts_with sub (c # cs)" by (auto simp: starts_with_iff)
      then show ?thesis by simp
    next
      case (Cons a u')
      with uv have "cs = u' @ sub @ v" by simp
      with Cons.IH have "contains sub cs" by auto
      then show ?thesis by simp
    qed
  qed
qed

lemma find_filter: "List.find P xs = (case filter P xs of [] \<Rightarrow> None | x # _ \<Rightarrow> Some x)"
  by (induction xs) auto

lemma map_of_default_other:
  "field \<noteq> ''date'' \<Longrightarrow> map_of (AList.update ''date'' c default_mapping) field = map_of default_mapping field"
  by (simp add: update_conv')

lemma resolve_mapping_date:
  "''date'' \<notin> set cols \<Longrightarrow>
   map_of (resolve_mapping cols) ''date'' =
     Some (case List.find date_like cols of None \<Rightarrow> ''date'' | Some c \<Rightarrow> c)"
  by (simp add: resolve_mapping_def find_filter update_conv' default_mapping_def split: list.split)

lemma resolve_mapping_other:
  "field \<noteq> ''date'' \<Longrightarrow> map_of (resolve_mapping cols) field = map_of default_mapping field"
  by (simp add: resolve_mapping_def map_of_default_other split: list.split)

lemma process_zepp_csv_mapping:
  "process_zepp_csv (Inr df) = (Some (df', mapping), msgs) \<Longrightarrow>
   df' = df \<and> mapping = resolve_mapping (columns df)"
  by (auto simp: process_zepp_csv_def Let_def split: if_splits)

text \<open>
  Claim C5. For a file with no header \<^verbatim>\<open>date\<close>, the date key of the returned mapping is
  the first header, in the order of the file, whose lower-case form contains \<^verbatim>\<open>date\<close> or
  \<^verbatim>\<open>time\<close>, and stays \<^verbatim>\<open>date\<close> when there is none. Every other key keeps its expected
  header, whatever the headers of the file are.
\<close>

theorem date_column_fallback:
  assumes "process_zepp_csv (Inr df) = (Some (df', mapping), msgs)"
    and "''date'' \<notin> set (columns df)"
  shows "map_of mapping ''date'' =
           Some (case List.find date_like (columns df) of None \<Rightarrow> ''date'' | Some c \<Rightarrow> c) \<and>
         (\<forall>field. field \<noteq> ''date'' \<longrightarrow> map_of mapping field = map_of default_mapping field) \<and>
         (\<forall>c. date_like c \<longleftrightarrow>
            (\<exists>u v. lower c = u @ ''date'' @ v) \<or> (\<exists>u v. lower c = u @ ''time'' @ v))"
proof -
  from assms(1) have m: "mapping = resolve_mapping (columns df)"
    by (simp add: process_zepp_csv_mapping)
  show ?thesis
    unfolding m
    by (simp add: resolve_mapping_date [OF assms(2)] resolve_mapping_other date_like_def contains_iff)
qed

text \<open>
  A file with the headers \<^verbatim>\<open>Time\<close> and \<^verbatim>\<open>steps\<close> maps the date to \<^verbatim>\<open>Time\<close>.
\<close>

theorem date_column_fallback_witness:
  "process_zepp_csv (Inr time_df) =
     (Some (time_df,
        [(''date'', ''Time''), (''steps'', ''steps''), (''sleep_hours'', ''totalSleep''),
         (''deep_sleep_min'', ''deepSleep''), (''min_heart_rate'', ''minHeartRate''),
         (''max_heart_rate'', ''maxHeartRate''), (''body_weight'', ''weight'')]),
      [Info_mapped [''Time'', ''steps'']]) \<and>
   ''date'' \<notin> set (columns time_df) \<and>
   List.find date_like (columns time_df) = Some ''Time'' \<and>
   map_of (snd (the (fst (process_zepp_csv (Inr time_df))))) ''date'' = Some ''Time'' \<and>
   map_of (snd (the (fst (process_zepp_csv (Inr time_df))))) ''body_weight'' = Some ''weight''"
proof -
  let ?m = "[(''date'', ''Time''), (''steps'', ''steps''), (''sleep_hours'', ''totalSleep''),
         (''deep_sleep_min'', ''deepSleep''), (''min_heart_rate'', ''minHeartRate''),
         (''max_heart_rate'', ''maxHeartRate''), (''body_weight'', ''weight'')]"
  have ok: "process_zepp_csv (Inr time_df) = (Some (time_df, ?m), [Info_mapped [''Time'', ''steps'']])"
    by (simp add: mapper_defs time_df_def date_like_examples)
  have nd: "''date'' \<notin> set (columns time_df)"
    by (simp add: time_df_def)
  have fd: "List.find date_like (columns time_df) = Some ''Time''"
    by (simp add: time_df_def date_like_examples)
  from date_column_fallback [OF ok nd]
  have d: "map_of ?m ''date'' = Some (case List.find date_like (columns time_df) of None \<Rightarrow> ''date'' | Some c \<Rightarrow> c)"
    and o: "\<forall>field. field \<noteq> ''date'' \<longrightarrow> map_of ?m field = map_of default_mapping field"
    by blast+
  from d fd have d': "map_of ?m ''date'' = Some ''Time''" by simp
  from o have "''body_weight'' \<noteq> ''date'' \<longrightarrow>
      map_of ?m ''body_weight'' = map_of default_mapping ''body_weight''" by (rule spec)
  moreover have "''body_weight'' \<noteq> ''date''" by simp
  ultimately have "map_of ?m ''body_weight'' = map_of default_mapping ''body_weight''" by (rule mp)
  moreover have "map_of default_mapping ''body_weight'' = Some ''weight''"
    by (simp add: default_mapping_def)
  ultimately have o': "map_of ?m ''body_weight'' = Some ''weight''" by (rule trans)
  from ok nd fd d' o' show ?thesis by simp
qed

text \<open>
  Claim C6. For a file that pandas reads: when no header of the mapping is a column of the
  frame, the mapper shows the error and the columns it found and returns nothing;
  otherwise it returns the frame and the mapping and shows the recognized columns.
\<close>

theorem no_recognized_columns:
  "process_zepp_csv (Inr df) =
     (if \<forall>col\<in>set (map snd (resolve_mapping (columns df))). col \<notin> set (columns df)
      then (None, [Error_no_columns, Write_columns (columns df)])
      else (Some (df, resolve_mapping (columns df)),
            [Info_mapped (filter (\<lambda>col. col \<in> set (columns df))
                           (map snd (resolve_mapping (columns df))))]))"
  by (simp add: process_zepp_csv_def Let_def filter_empty_conv)

theorem no_recognized_columns_witness:
  "process_zepp_csv (Inr unknown_df) =
     (None, [Error_no_columns, Write_columns [''giorno'', ''passi'']]) \<and>
   process_zepp_csv (Inr time_df) =
     (Some (time_df, resolve_mapping [''Time'', ''steps'']), [Info_mapped [''Time'', ''steps'']])"
proof -
  have none: "\<forall>col\<in>set (map snd (resolve_mapping (columns unknown_df))). col \<notin> set (columns unknown_df)"
    by (simp add: mapper_defs unknown_df_def time_df_def date_like_examples)
  have some: "\<not> (\<forall>col\<in>set (map snd (resolve_mapping (columns time_df))). col \<notin> set (columns time_df))"
    by (simp add: mapper_defs unknown_df_def time_df_def date_like_examples)
  from no_recognized_columns [of unknown_df]
  have a: "process_zepp_csv (Inr unknown_df) = (None, [Error_no_columns, Write_columns (columns unknown_df)])"
    by (simp only: if_P [OF none])
  from no_recognized_columns [of time_df]
  have b: "process_zepp_csv (Inr time_df) =
      (Some (time_df, resolve_mapping (columns time_df)),
       [Info_mapped (filter (\<lambda>col. col \<in> set (columns time_df))
                      (map snd (resolve_mapping (columns time_df))))])"
    by (simp only: if_not_P [OF some])
  have c: "columns unknown_df = [''giorno'', ''passi'']" "columns time_df = [''Time'', ''steps'']"
    by (simp_all add: unknown_df_def time_df_def)
  from a b show ?thesis by (simp add: c mapper_defs date_like_examples)
qed

section \<open>The figures of the dashboard: properties\<close>

lemma select_recent_set:
  "set (select_recent cutoff db) = {r \<in> set (zepp_data db). cutoff \<le> date r}"
  by (auto simp: select_recent_def)

lemma select_recent_sorted: "sorted (map date (select_recent cutoff db))"
  by (simp add: select_recent_def)


lemma sorted_le_last: "sorted xs \<Longrightarrow> x \<in> set xs \<Longrightarrow> x \<le> last xs"
  by (induction xs) auto

lemma last_of_sorted_filter:
  assumes srt: "sorted (map f xs)"
    and inj: "inj_on f (set xs)"
    and r: "r \<in> set xs" "P r"
    and top: "\<forall>x\<in>set xs. P x \<longrightarrow> f x \<le> f r"
  shows "last (filter P xs) = r"
proof -
  let ?S = "filter P xs"
  from r have ne: "?S \<noteq> []" by (auto simp: filter_empty_conv)
  from srt have "sorted (map f ?S)" by (rule sorted_filter)
  moreover from r have "f r \<in> set (map f ?S)" by auto
  ultimately have "f r \<le> last (map f ?S)" by (rule sorted_le_last)
  with ne have le: "f r \<le> f (last ?S)" by (simp add: last_map)
  from ne have "last ?S \<in> set ?S" by (rule last_in_set)
  then have mem: "last ?S \<in> set xs" and p: "P (last ?S)" by auto
  with top have "f (last ?S) \<le> f r" by auto
  with le have "f (last ?S) = f r" by simp
  with inj mem r(1) show ?thesis by (auto dest: inj_onD)
qed

lemma curr_weight_Kg:
  assumes srt: "sorted (map date rows)"
    and inj: "inj_on date (set rows)"
    and r: "r \<in> set rows" "body_weight r = Some w" "w > 0"
    and top: "\<forall>x\<in>set rows. positive_weight x \<longrightarrow> date x \<le> date r"
  shows "curr_weight rows = Kg w"
proof -
  from r have pr: "positive_weight r" by (simp add: positive_weight_def)
  from last_of_sorted_filter [OF srt inj r(1) pr top]
  have l: "last (filter positive_weight rows) = r" .
  from r(1) pr have ne: "filter positive_weight rows \<noteq> []" by (auto simp: filter_empty_conv)
  then obtain v vs where vs: "filter positive_weight rows = v # vs" by (cases "filter positive_weight rows") auto
  from r(1) have "rows \<noteq> []" by auto
  with vs l r(2) show ?thesis by (simp add: curr_weight_def)
qed

lemma curr_weight_NA:
  "\<forall>x\<in>set rows. \<not> positive_weight x \<Longrightarrow> curr_weight rows = NA"
  by (auto simp: curr_weight_def filter_empty_conv split: list.split)





text \<open>
  Claim C7 says that the weight shown is the latest positive weight of the stored records.
  The query of the dashboard only selects the records of the last 30 days: a record of
  2020 with the weight 70 is not seen in May 2024, and the weight shown is "N/A".
\<close>

theorem old_weight_counterexample:
  "map date (zepp_data old_weight_db) = [''2020-01-01''] \<and>
   map body_weight (zepp_data old_weight_db) = [Some 70] \<and>
   fst (dashboard_kpis ''2024-05-02'' old_weight_db) = NA"
  by (simp add: dashboard_defs old_weight_db_def)

text \<open>
  Claim C7, as the source has it. Among the records whose date is not below the cutoff
  \<^verbatim>\<open>date('now', '-30 days')\<close>, the weight shown is that of the record with the greatest date
  among those with a weight above zero, and "N/A" when none of them has one.
\<close>

theorem latest_weight_in_window:
  "(distinct (map date (zepp_data db)) \<and> r \<in> set (zepp_data db) \<and> cutoff \<le> date r \<and>
    body_weight r = Some w \<and> w > 0 \<and>
    (\<forall>x\<in>set (zepp_data db). cutoff \<le> date x \<and> positive_weight x \<longrightarrow> date x \<le> date r)
      \<longrightarrow> fst (dashboard_kpis cutoff db) = Kg w) \<and>
   ((\<forall>x\<in>set (zepp_data db). cutoff \<le> date x \<longrightarrow> \<not> positive_weight x)
      \<longrightarrow> fst (dashboard_kpis cutoff db) = NA)"
proof (intro conjI impI)
  assume a: "distinct (map date (zepp_data db)) \<and> r \<in> set (zepp_data db) \<and> cutoff \<le> date r \<and>
    body_weight r = Some w \<and> w > 0 \<and>
    (\<forall>x\<in>set (zepp_data db). cutoff \<le> date x \<and> positive_weight x \<longrightarrow> date x \<le> date r)"
  let ?rows = "select_recent cutoff db"
  from a have "inj_on date (set (zepp_data db))" by (simp add: distinct_map)
  then have inj: "inj_on date (set ?rows)"
    by (rule inj_on_subset) (auto simp: select_recent_set)
  from a have r: "r \<in> set ?rows" by (simp add: select_recent_set)
  from a have top: "\<forall>x\<in>set ?rows. positive_weight x \<longrightarrow> date x \<le> date r"
    by (simp add: select_recent_set)
  from a have w: "body_weight r = Some w" "w > 0" by simp_all
  from curr_weight_Kg [OF select_recent_sorted inj r w top]
  show "fst (dashboard_kpis cutoff db) = Kg w"
    by (simp add: dashboard_kpis_def)
next
  assume "\<forall>x\<in>set (zepp_data db). cutoff \<le> date x \<longrightarrow> \<not> positive_weight x"
  then have "\<forall>x\<in>set (select_recent cutoff db). \<not> positive_weight x"
    by (simp add: select_recent_set)
  then show "fst (dashboard_kpis cutoff db) = NA"
    by (simp add: dashboard_kpis_def curr_weight_NA)
qed

text \<open>
  The weights 0, 0, 62.3, 0 in ascending order of the dates give 62.3.
\<close>

theorem latest_weight_in_window_witness:
  "map body_weight (select_recent ''2024-05-02'' weights_db) = [Some 0, Some 0, Some 62.3, Some 0] \<and>
   fst (dashboard_kpis ''2024-05-02'' weights_db) = Kg 62.3 \<and>
   select_recent ''2025-01-01'' weights_db = [] \<and>
   fst (dashboard_kpis ''2025-01-01'' weights_db) = NA"
proof -
  let ?r = "zepp_data weights_db ! 0"
  have h: "distinct (map date (zepp_data weights_db)) \<and> ?r \<in> set (zepp_data weights_db) \<and>
      ''2024-05-02'' \<le> date ?r \<and> body_weight ?r = Some 62.3 \<and> (62.3::real) > 0 \<and>
      (\<forall>x\<in>set (zepp_data weights_db). ''2024-05-02'' \<le> date x \<and> positive_weight x \<longrightarrow> date x \<le> date ?r)"
    by (simp add: dashboard_defs weights_db_def)
  have n: "\<forall>x\<in>set (zepp_data weights_db). ''2025-01-01'' \<le> date x \<longrightarrow> \<not> positive_weight x"
    by (simp add: dashboard_defs weights_db_def)
  from latest_weight_in_window [of weights_db ?r "''2024-05-02''" "62.3"] h
  have a: "fst (dashboard_kpis ''2024-05-02'' weights_db) = Kg 62.3" by blast
  from latest_weight_in_window [of weights_db ?r "''2025-01-01''" "62.3"] n
  have b: "fst (dashboard_kpis ''2025-01-01'' weights_db) = NA" by blast
  have c: "map body_weight (select_recent ''2024-05-02'' weights_db) = [Some 0, Some 0, Some 62.3, Some 0]"
    "select_recent ''2025-01-01'' weights_db = []"
    by (simp_all add: dashboard_defs weights_db_def)
  from a b c show ?thesis by simp
qed




end
